theory Spec2Isabelle
  imports Complex_Main
begin

section \<open>Python values\<close>

text \<open>
  The SDK handles JSON-shaped Python values: request payloads and response bodies are
  dictionaries whose values are \<open>None\<close>, booleans, integers, floats, strings, lists or
  dictionaries again. A dictionary is kept as an association list in insertion order;
  lookups read the first binding of a key (Python dictionaries hold each key once).
  Strings are lists of 8-bit characters; the model covers the ASCII range, on which
  Python's \<open>upper\<close>, \<open>lower\<close>, \<open>strip\<close> and the \<open>re\<close> classes \<open>\d\<close> and \<open>\s\<close> are
  the functions below. A float is its real value, or one of the three non-finite floats.
\<close>

datatype pyfloat = Finite real | PosInf | NegInf | NaN

datatype pyval =
    PNone
  | PBool bool
  | PInt int
  | PFloat pyfloat
  | PStr string
  | PList "pyval list"
  | PDict "(string \<times> pyval) list"

type_synonym pydict = "(string \<times> pyval) list"

text \<open>Python truthiness: \<open>bool(v)\<close>, as used by \<open>not v\<close>, \<open>v or w\<close> and \<open>if v\<close>.\<close>

fun float_truthy :: "pyfloat \<Rightarrow> bool" where
  "float_truthy (Finite r) = (r \<noteq> 0)"
| "float_truthy PosInf = True"
| "float_truthy NegInf = True"
| "float_truthy NaN = True"

fun truthy :: "pyval \<Rightarrow> bool" where
  "truthy PNone = False"
| "truthy (PBool b) = b"
| "truthy (PInt i) = (i \<noteq> 0)"
| "truthy (PFloat f) = float_truthy f"
| "truthy (PStr s) = (s \<noteq> [])"
| "truthy (PList xs) = (xs \<noteq> [])"
| "truthy (PDict d) = (d \<noteq> [])"

text \<open>\<open>d.get(k, default)\<close> and \<open>k in d\<close> on a dictionary.\<close>

definition dict_get :: "pydict \<Rightarrow> string \<Rightarrow> pyval \<Rightarrow> pyval" where
  "dict_get d k dflt = (case map_of d k of None \<Rightarrow> dflt | Some v \<Rightarrow> v)"

definition dict_has :: "pydict \<Rightarrow> string \<Rightarrow> bool" where
  "dict_has d k = (map_of d k \<noteq> None)"

section \<open>Exceptions (exceptions.py)\<close>

text \<open>
  Every SDK error class derives directly from \<open>atoshipError\<close>. An instance carries
  \<open>message\<close>, \<open>code\<close> and \<open>details\<close>; only \<open>RateLimitError\<close> instances have the attribute
  \<open>retry_after\<close> (\<open>None\<close> below when the attribute does not exist).
\<close>

datatype error_class =
    atoshipError
  | ValidationError
  | AuthenticationError
  | AuthorizationError
  | NotFoundError
  | RateLimitError
  | ServerError
  | NetworkError
  | TimeoutError
  | ConfigurationError

record sdk_error =
  err_class :: error_class
  message :: pyval
  code :: pyval
  details :: pyval
  retry_after :: "pyval option"

text \<open>
  What a call can raise: an SDK error, or one of the built-in exceptions Python raises
  when an attribute or an operation is missing on a value.
\<close>

datatype exn = SDKError sdk_error | PyTypeError | PyAttributeError | PyKeyError | PyValueError

text \<open>\<open>atoshipError.__init__\<close>: \<open>self.details = details or {}\<close>.\<close>

definition atoshipError_init :: "error_class \<Rightarrow> pyval \<Rightarrow> pyval \<Rightarrow> pyval \<Rightarrow> sdk_error" where
  "atoshipError_init cls msg cd dt =
     \<lparr>err_class = cls, message = msg, code = cd,
      details = (if truthy dt then dt else PDict []), retry_after = None\<rparr>"

text \<open>
  \<open>RateLimitError.__init__\<close>:
  \<open>self.retry_after = details.get('retryAfter') if details else None\<close>.
  A truthy \<open>details\<close> that is not a dictionary has no \<open>get\<close>: AttributeError.
\<close>

definition RateLimitError_init :: "pyval \<Rightarrow> pyval \<Rightarrow> pyval \<Rightarrow> exn + sdk_error" where
  "RateLimitError_init msg cd dt =
     (let self = atoshipError_init RateLimitError msg cd dt in
      if truthy dt then
        (case dt of
           PDict dd \<Rightarrow> Inr (self\<lparr>retry_after := Some (dict_get dd ''retryAfter'' PNone)\<rparr>)
         | _ \<Rightarrow> Inl PyAttributeError)
      else Inr (self\<lparr>retry_after := Some PNone\<rparr>))"

text \<open>
  \<open>create_error_from_response(status_code, response_data)\<close>; \<open>Inr\<close> is the error object
  returned, \<open>Inl\<close> an exception raised while building it.
\<close>

definition create_error_from_response :: "int \<Rightarrow> pydict \<Rightarrow> exn + sdk_error" where
  "create_error_from_response status_code response_data =
     (let msg = dict_get response_data ''error'' (PStr ''Unknown error'');
          cd = dict_get response_data ''code'' PNone;
          dt = dict_get response_data ''details'' (PDict [])
      in if status_code = 400 then Inr (atoshipError_init ValidationError msg cd dt)
         else if status_code = 401 then Inr (atoshipError_init AuthenticationError msg cd dt)
         else if status_code = 403 then Inr (atoshipError_init AuthorizationError msg cd dt)
         else if status_code = 404 then Inr (atoshipError_init NotFoundError msg cd dt)
         else if status_code = 429 then RateLimitError_init msg cd dt
         else if 500 \<le> status_code \<and> status_code < 600
           then Inr (atoshipError_init ServerError msg cd dt)
         else Inr (atoshipError_init atoshipError msg cd dt))"

text \<open>\<open>isinstance(error, cls)\<close> for an SDK class: the class itself or the base class.\<close>

fun isinstance :: "exn \<Rightarrow> error_class \<Rightarrow> bool" where
  "isinstance (SDKError e) cls = (cls = err_class e \<or> cls = atoshipError)"
| "isinstance PyTypeError cls = False"
| "isinstance PyAttributeError cls = False"
| "isinstance PyKeyError cls = False"
| "isinstance PyValueError cls = False"

text \<open>\<open>is_retriable_error(error)\<close>.\<close>

definition is_retriable_error :: "exn \<Rightarrow> bool" where
  "is_retriable_error error =
     (if isinstance error NetworkError \<or> isinstance error TimeoutError then True
      else if isinstance error ServerError then True
      else if isinstance error RateLimitError then False
      else False)"


definition bind_exn :: "exn + 'a \<Rightarrow> ('a \<Rightarrow> exn + 'b) \<Rightarrow> exn + 'b" where
  "bind_exn m f = (case m of Inl e \<Rightarrow> Inl e | Inr v \<Rightarrow> f v)"

section \<open>Strings and regular expressions\<close>

definition py_isspace :: "char \<Rightarrow> bool" where
  "py_isspace c = ((of_char c :: nat) \<in> {9, 10, 11, 12, 13, 28, 29, 30, 31, 32})"

definition py_isdigit :: "char \<Rightarrow> bool" where
  "py_isdigit c = (48 \<le> (of_char c :: nat) \<and> (of_char c :: nat) \<le> 57)"

definition is_upper_AZ :: "char \<Rightarrow> bool" where
  "is_upper_AZ c = (65 \<le> (of_char c :: nat) \<and> (of_char c :: nat) \<le> 90)"

definition upper_char :: "char \<Rightarrow> char" where
  "upper_char c =
     (if 97 \<le> (of_char c :: nat) \<and> (of_char c :: nat) \<le> 122
      then char_of ((of_char c :: nat) - 32) else c)"

definition lower_char :: "char \<Rightarrow> char" where
  "lower_char c = (if is_upper_AZ c then char_of ((of_char c :: nat) + 32) else c)"

definition upper :: "string \<Rightarrow> string" where
  "upper s = map upper_char s"

definition lower :: "string \<Rightarrow> string" where
  "lower s = map lower_char s"

definition strip :: "string \<Rightarrow> string" where
  "strip s = rev (dropWhile py_isspace (rev (dropWhile py_isspace s)))"

text \<open>\<open>needle in haystack\<close> on strings.\<close>

fun is_substring :: "string \<Rightarrow> string \<Rightarrow> bool" where
  "is_substring p [] = (p = [])"
| "is_substring p (c # cs) = (take (length p) (c # cs) = p \<or> is_substring p cs)"

text \<open>\<open>str(n)\<close> for a non-negative integer, as the f-strings print it.\<close>

definition digit_char :: "nat \<Rightarrow> char" where
  "digit_char d = char_of (48 + d)"

fun str_nat :: "nat \<Rightarrow> string" where
  "str_nat n = (if n < 10 then [digit_char n] else str_nat (n div 10) @ [digit_char (n mod 10)])"

text \<open>\<open>'; '.join(errors)\<close>.\<close>

fun join :: "string \<Rightarrow> string list \<Rightarrow> string" where
  "join sep [] = []"
| "join sep [x] = x"
| "join sep (x # y # ys) = x @ sep @ join sep (y # ys)"

text \<open>
  The fragment of \<open>re\<close> the validators use: a character class, a class repeated between a
  lower and an optional upper bound, sequence, an optional group, and \<open>$\<close> (without
  MULTILINE: the end of the string, or just before a newline that ends it).
  \<open>rest r s\<close> lists the remainders of \<open>s\<close> after every prefix that \<open>r\<close> matches;
  \<open>re.match\<close> anchors at the start of the string (so a leading \<open>^\<close> adds nothing) and
  backtracks over all of them, so it finds a match exactly when the list is not empty.
\<close>

datatype rx =
    Cls "char \<Rightarrow> bool"
  | Rep "char \<Rightarrow> bool" nat "nat option"
  | Seq rx rx
  | Opt rx
  | Dollar

fun rep_rest :: "(char \<Rightarrow> bool) \<Rightarrow> nat \<Rightarrow> nat option \<Rightarrow> string \<Rightarrow> string list" where
  "rep_rest p lo hi [] = (if lo = 0 then [[]] else [])"
| "rep_rest p lo hi (c # cs) =
     (if p c \<and> hi \<noteq> Some 0 then rep_rest p (lo - 1) (map_option (\<lambda>h. h - 1) hi) cs else [])
     @ (if lo = 0 then [c # cs] else [])"

fun rest :: "rx \<Rightarrow> string \<Rightarrow> string list" where
  "rest (Cls p) s = (case s of [] \<Rightarrow> [] | c # cs \<Rightarrow> if p c then [cs] else [])"
| "rest (Rep p lo hi) s = rep_rest p lo hi s"
| "rest (Seq a b) s = concat (map (rest b) (rest a s))"
| "rest (Opt a) s = rest a s @ [s]"
| "rest Dollar s = (if s = [] \<or> s = [CHR 0x0A] then [s] else [])"

definition re_match :: "rx \<Rightarrow> string \<Rightarrow> bool" where
  "re_match r s = (rest r s \<noteq> [])"

definition chr :: "char \<Rightarrow> rx" where
  "chr c = Cls (\<lambda>x. x = c)"

definition plus :: "(char \<Rightarrow> bool) \<Rightarrow> rx" where
  "plus p = Rep p 1 None"

definition seqs :: "rx list \<Rightarrow> rx" where
  "seqs rs = foldr Seq (butlast rs) (last rs)"

section \<open>Validation (utils.py)\<close>

text \<open>\<open>r'^[^\s@]+@[^\s@]+\.[^\s@]+$'\<close>\<close>

definition not_space_at :: "char \<Rightarrow> bool" where
  "not_space_at c = (\<not> py_isspace c \<and> c \<noteq> CHR ''@'')"

definition email_pattern :: rx where
  "email_pattern =
     seqs [plus not_space_at, chr (CHR ''@''), plus not_space_at, chr (CHR ''.''),
           plus not_space_at, Dollar]"

text \<open>\<open>re.match\<close> raises TypeError on an argument that is not a string.\<close>

definition validate_email :: "pyval \<Rightarrow> exn + bool" where
  "validate_email email =
     (case email of PStr s \<Rightarrow> Inr (re_match email_pattern s) | _ \<Rightarrow> Inl PyTypeError)"

text \<open>\<open>re.sub(r'\D', '', phone)\<close> keeps the digits; TypeError on a non-string.\<close>

definition validate_phone :: "pyval \<Rightarrow> exn + bool" where
  "validate_phone phone =
     (case phone of
        PStr s \<Rightarrow> (let digits = filter py_isdigit s
                   in Inr (10 \<le> length digits \<and> length digits \<le> 15))
      | _ \<Rightarrow> Inl PyTypeError)"

text \<open>\<open>r'^\d{5}(-\d{4})?$'\<close>\<close>

definition us_pattern :: rx where
  "us_pattern =
     seqs [Rep py_isdigit 5 (Some 5),
           Opt (Seq (chr (CHR ''-'')) (Rep py_isdigit 4 (Some 4))), Dollar]"

text \<open>\<open>r'^[A-Z]\d[A-Z]\s?\d[A-Z]\d$'\<close>\<close>

definition ca_pattern :: rx where
  "ca_pattern =
     seqs [Cls is_upper_AZ, Cls py_isdigit, Cls is_upper_AZ, Opt (Cls py_isspace),
           Cls py_isdigit, Cls is_upper_AZ, Cls py_isdigit, Dollar]"

text \<open>\<open>r'^[A-Z]{1,2}\d[A-Z\d]?\s?\d[A-Z]{2}$'\<close>\<close>

definition gb_pattern :: rx where
  "gb_pattern =
     seqs [Rep is_upper_AZ 1 (Some 2), Cls py_isdigit,
           Opt (Cls (\<lambda>c. is_upper_AZ c \<or> py_isdigit c)), Opt (Cls py_isspace),
           Cls py_isdigit, Rep is_upper_AZ 2 (Some 2), Dollar]"

text \<open>\<open>r'^[A-Z0-9\s-]{3,10}$'\<close>\<close>

definition other_pattern :: rx where
  "other_pattern =
     seqs [Rep (\<lambda>c. is_upper_AZ c \<or> py_isdigit c \<or> py_isspace c \<or> c = CHR ''-'') 3 (Some 10),
           Dollar]"

text \<open>
  \<open>validate_postal_code(postal_code, country)\<close>: \<open>postal_code.strip().upper()\<close> and
  \<open>country.upper()\<close> raise AttributeError on a value that is not a string.
\<close>

definition validate_postal_code :: "pyval \<Rightarrow> pyval \<Rightarrow> exn + bool" where
  "validate_postal_code postal_code country =
     (case postal_code of
        PStr pc0 \<Rightarrow>
          (let pc = upper (strip pc0) in
           case country of
             PStr c \<Rightarrow>
               if upper c = ''US'' then Inr (re_match us_pattern pc)
               else if upper c = ''CA'' then Inr (re_match ca_pattern pc)
               else if upper c = ''GB'' then Inr (re_match gb_pattern pc)
               else Inr (re_match other_pattern pc)
           | _ \<Rightarrow> Inl PyAttributeError)
      | _ \<Rightarrow> Inl PyAttributeError)"

text \<open>
  \<open>field in item\<close> and \<open>item[field]\<close> for a string \<open>field\<close> and an arbitrary \<open>item\<close>:
  a dictionary tests its keys, a string tests for a substring, a list compares its
  elements; every other value is not iterable (TypeError). Only a dictionary can be
  indexed by a string.
\<close>

definition py_in :: "string \<Rightarrow> pyval \<Rightarrow> exn + bool" where
  "py_in field item =
     (case item of
        PDict d \<Rightarrow> Inr (dict_has d field)
      | PStr s \<Rightarrow> Inr (is_substring field s)
      | PList xs \<Rightarrow> Inr (PStr field \<in> set xs)
      | _ \<Rightarrow> Inl PyTypeError)"

definition py_getitem :: "pyval \<Rightarrow> string \<Rightarrow> exn + pyval" where
  "py_getitem item field =
     (case item of
        PDict d \<Rightarrow> (case map_of d field of None \<Rightarrow> Inl PyKeyError | Some v \<Rightarrow> Inr v)
      | _ \<Rightarrow> Inl PyTypeError)"

text \<open>\<open>isinstance(v, int)\<close> (a bool is an int), \<open>isinstance(v, (int, float))\<close>, \<open>v <= 0\<close>.\<close>

fun is_int :: "pyval \<Rightarrow> bool" where
  "is_int (PInt i) = True"
| "is_int (PBool b) = True"
| "is_int v = False"

fun is_int_or_float :: "pyval \<Rightarrow> bool" where
  "is_int_or_float (PInt i) = True"
| "is_int_or_float (PBool b) = True"
| "is_int_or_float (PFloat f) = True"
| "is_int_or_float v = False"

fun float_le_zero :: "pyfloat \<Rightarrow> bool" where
  "float_le_zero (Finite r) = (r \<le> 0)"
| "float_le_zero PosInf = False"
| "float_le_zero NegInf = True"
| "float_le_zero NaN = False"

fun num_le_zero :: "pyval \<Rightarrow> bool" where
  "num_le_zero (PInt i) = (i \<le> 0)"
| "num_le_zero (PBool b) = (\<not> b)"
| "num_le_zero (PFloat f) = float_le_zero f"
| "num_le_zero v = False"

definition item_required_fields :: "string list" where
  "item_required_fields = [''name'', ''sku'', ''quantity'', ''unitPrice'', ''weight'', ''weightUnit'']"

definition valid_units :: "string list" where
  "valid_units = [''lb'', ''kg'', ''oz'', ''g'']"

text \<open>
  The loop \<open>for field in required_fields: if field not in item or item[field] is None\<close>.
\<close>

fun item_required_loop :: "string \<Rightarrow> pyval \<Rightarrow> string list \<Rightarrow> string list \<Rightarrow> exn + string list" where
  "item_required_loop pre item [] errors = Inr errors"
| "item_required_loop pre item (field # fs) errors =
     bind_exn (py_in field item) (\<lambda>present.
       if \<not> present
       then item_required_loop pre item fs
              (errors @ [pre @ '': '' @ [CHR 0x27] @ field @ [CHR 0x27] @ '' is required''])
       else bind_exn (py_getitem item field) (\<lambda>v.
         if v = PNone
         then item_required_loop pre item fs
                (errors @ [pre @ '': '' @ [CHR 0x27] @ field @ [CHR 0x27] @ '' is required''])
         else item_required_loop pre item fs errors))"

text \<open>One \<open>if 'f' in item: if <bad item['f']>: errors.append(msg)\<close> block.\<close>

definition item_check :: "pyval \<Rightarrow> string \<Rightarrow> (pyval \<Rightarrow> bool) \<Rightarrow> string \<Rightarrow> string list \<Rightarrow> exn + string list" where
  "item_check item field bad msg errors =
     bind_exn (py_in field item) (\<lambda>present.
       if present
       then bind_exn (py_getitem item field) (\<lambda>v. Inr (if bad v then errors @ [msg] else errors))
       else Inr errors)"

definition validate_order_item :: "pyval \<Rightarrow> nat \<Rightarrow> exn + string list" where
  "validate_order_item item index =
     (let pre = ''Item '' @ str_nat (index + 1) in
      bind_exn (item_required_loop pre item item_required_fields []) (\<lambda>errors.
      bind_exn (item_check item ''quantity'' (\<lambda>v. \<not> is_int v \<or> num_le_zero v)
                  (pre @ '': quantity must be a positive integer'') errors) (\<lambda>errors.
      bind_exn (item_check item ''unitPrice'' (\<lambda>v. \<not> is_int_or_float v \<or> num_le_zero v)
                  (pre @ '': unitPrice must be a positive number'') errors) (\<lambda>errors.
      bind_exn (item_check item ''weight'' (\<lambda>v. \<not> is_int_or_float v \<or> num_le_zero v)
                  (pre @ '': weight must be a positive number'') errors) (\<lambda>errors.
      item_check item ''weightUnit'' (\<lambda>v. v \<notin> set (map PStr valid_units))
        (pre @ '': weightUnit must be one of ['' @ [CHR 0x27] @ ''lb'' @ [CHR 0x27] @ '', ''
           @ [CHR 0x27] @ ''kg'' @ [CHR 0x27] @ '', '' @ [CHR 0x27] @ ''oz'' @ [CHR 0x27]
           @ '', '' @ [CHR 0x27] @ ''g'' @ [CHR 0x27] @ '']'') errors)))))"

definition required_fields :: "string list" where
  "required_fields =
     [''orderNumber'', ''recipientName'', ''recipientStreet1'', ''recipientCity'',
      ''recipientState'', ''recipientPostalCode'', ''recipientCountry'', ''items'']"

text \<open>\<open>for field in required_fields: if field not in order_data or not order_data[field]\<close>\<close>

fun required_loop :: "pydict \<Rightarrow> string list \<Rightarrow> string list \<Rightarrow> string list" where
  "required_loop order_data [] errors = errors"
| "required_loop order_data (field # fs) errors =
     (if \<not> dict_has order_data field \<or> \<not> truthy (dict_get order_data field PNone)
      then required_loop order_data fs (errors @ [[CHR 0x27] @ field @ [CHR 0x27] @ '' is required''])
      else required_loop order_data fs errors)"

text \<open>\<open>for i, item in enumerate(items): errors.extend(validate_order_item(item, i))\<close>\<close>

fun items_loop :: "pyval list \<Rightarrow> nat \<Rightarrow> string list \<Rightarrow> exn + string list" where
  "items_loop [] i errors = Inr errors"
| "items_loop (item # items) i errors =
     bind_exn (validate_order_item item i) (\<lambda>item_errors.
       items_loop items (i + 1) (errors @ item_errors))"

definition validate_order_data :: "pydict \<Rightarrow> exn + string list" where
  "validate_order_data order_data =
     (let errors = required_loop order_data required_fields [] in
      bind_exn
        (if dict_has order_data ''recipientEmail''
            \<and> truthy (dict_get order_data ''recipientEmail'' PNone)
         then bind_exn (validate_email (dict_get order_data ''recipientEmail'' PNone)) (\<lambda>ok.
                Inr (if \<not> ok then errors @ [''Invalid recipient email format''] else errors))
         else Inr errors) (\<lambda>errors.
      bind_exn
        (if dict_has order_data ''recipientPhone''
            \<and> truthy (dict_get order_data ''recipientPhone'' PNone)
         then bind_exn (validate_phone (dict_get order_data ''recipientPhone'' PNone)) (\<lambda>ok.
                Inr (if \<not> ok then errors @ [''Invalid recipient phone format''] else errors))
         else Inr errors) (\<lambda>errors.
      bind_exn
        (if dict_has order_data ''recipientPostalCode'' \<and> dict_has order_data ''recipientCountry''
         then bind_exn (validate_postal_code (dict_get order_data ''recipientPostalCode'' PNone)
                          (dict_get order_data ''recipientCountry'' PNone)) (\<lambda>ok.
                Inr (if \<not> ok then errors @ [''Invalid postal code format''] else errors))
         else Inr errors) (\<lambda>errors.
      if dict_has order_data ''items'' then
        (case dict_get order_data ''items'' PNone of
           PList items \<Rightarrow>
             if length items = 0 then Inr (errors @ [''At least one item is required''])
             else items_loop items 0 errors
         | _ \<Rightarrow> Inr (errors @ [''At least one item is required'']))
      else Inr errors))))"

section \<open>Masking for the debug log (utils.py)\<close>

definition default_sensitive_fields :: "string list" where
  "default_sensitive_fields = [''password'', ''apiKey'', ''api_key'', ''secret'', ''token'', ''key'']"

text \<open>
  \<open>mask_sensitive_data(data, sensitive_fields)\<close> with \<open>sensitive_fields\<close> already a list;
  the loop over \<open>masked_data.items()\<close> rewrites values in place and keeps keys and order.
  \<open>value[:2] + '*' * (len(value) - 4) + value[-2:]\<close> for a string longer than 4.
\<close>

function mask_fields :: "pydict \<Rightarrow> string list \<Rightarrow> pydict" where
  "mask_fields [] sensitive_fields = []"
| "mask_fields ((key, v) # data) sensitive_fields =
     (key,
      if lower key \<in> set (map lower sensitive_fields) then
        (case v of
           PStr s \<Rightarrow>
             if length s > 4
             then PStr (take 2 s @ replicate (length s - 4) (CHR ''*'') @ drop (length s - 2) s)
             else PStr ''***''
         | _ \<Rightarrow> PStr ''***'')
      else
        (case v of
           PDict d \<Rightarrow> PDict (mask_fields d sensitive_fields)
         | _ \<Rightarrow> v))
     # mask_fields data sensitive_fields"
  by pat_completeness auto
termination
  by (relation "measure (\<lambda>(d, sf). size (PDict d))") auto

text \<open>The entry point: \<open>sensitive_fields=None\<close> selects the default list.\<close>

definition mask_sensitive_data :: "pydict \<Rightarrow> string list option \<Rightarrow> pydict" where
  "mask_sensitive_data data sensitive_fields =
     mask_fields data (case sensitive_fields of None \<Rightarrow> default_sensitive_fields | Some sf \<Rightarrow> sf)"

section \<open>Retry with backoff (utils.py)\<close>

text \<open>
  \<open>retry_with_backoff(func, max_retries, base_delay)\<close> returns a wrapper that calls \<open>func\<close>
  in a loop. \<open>func\<close> performs I/O, so its behaviour is given by the outcome of each call
  in turn: \<open>func n\<close> is what the \<open>n\<close>-th call (from 0) returns or raises. A run of the
  wrapper reports what it returned or raised, how often it called \<open>func\<close>, and the delays
  it slept, in order. \<open>time.sleep\<close> raises ValueError on a negative delay, and
  \<open>raise None\<close> (an empty \<open>range\<close>) is a TypeError.
\<close>

record 'a run =
  outcome :: "exn + 'a"
  calls :: nat
  sleeps :: "real list"

fun retry_loop ::
  "(nat \<Rightarrow> exn + 'a) \<Rightarrow> int \<Rightarrow> real \<Rightarrow> nat list \<Rightarrow> exn option \<Rightarrow> nat \<Rightarrow> real list \<Rightarrow> 'a run" where
  "retry_loop func max_retries base_delay [] last_exception n slept =
     \<lparr>outcome = (case last_exception of None \<Rightarrow> Inl PyTypeError | Some e \<Rightarrow> Inl e),
      calls = n, sleeps = slept\<rparr>"
| "retry_loop func max_retries base_delay (attempt # attempts) last_exception n slept =
     (case func n of
        Inr v \<Rightarrow> \<lparr>outcome = Inr v, calls = n + 1, sleeps = slept\<rparr>
      | Inl e \<Rightarrow>
          if int attempt = max_retries
            then \<lparr>outcome = Inl e, calls = n + 1, sleeps = slept\<rparr>
          else if \<not> is_retriable_error e
            then \<lparr>outcome = Inl e, calls = n + 1, sleeps = slept\<rparr>
          else if base_delay * 2 ^ attempt < 0
            then \<lparr>outcome = Inl PyValueError, calls = n + 1, sleeps = slept\<rparr>
          else retry_loop func max_retries base_delay attempts (Some e) (n + 1)
                 (slept @ [base_delay * 2 ^ attempt]))"

text \<open>\<open>range(max_retries + 1)\<close>\<close>

definition attempt_range :: "int \<Rightarrow> nat list" where
  "attempt_range max_retries = [0 ..< nat (max_retries + 1)]"

definition retry_with_backoff :: "(nat \<Rightarrow> exn + 'a) \<Rightarrow> int \<Rightarrow> real \<Rightarrow> 'a run" where
  "retry_with_backoff func max_retries base_delay =
     retry_loop func max_retries base_delay (attempt_range max_retries) None 0 []"

section \<open>The client (client.py)\<close>

text \<open>
  What \<open>self._client.request(...)\<close> does on one call: it returns a response (status code,
  and the body parsed as JSON, \<open>None\<close> when the body is not JSON), or raises one of the
  \<open>httpx\<close> exceptions the client catches, each with its text.
\<close>

datatype httpx_result =
    Response int "pyval option"
  | TimeoutException string
  | HttpxNetworkError string
  | HTTPError string

record request =
  req_method :: string
  req_endpoint :: string
  req_data :: "pyval option"

text \<open>
  The client object: its configuration, and (as a record of its effects) the requests it
  has sent through \<open>self._client\<close> and the delays it has slept, in order.
\<close>

record sdk =
  api_key :: string
  base_url :: string
  timeout :: real
  max_retries :: int
  debug :: bool
  sent :: "request list"
  slept :: "real list"

text \<open>\<open>base_url.rstrip('/')\<close>\<close>

definition rstrip_slash :: "string \<Rightarrow> string" where
  "rstrip_slash s = rev (dropWhile (\<lambda>c. c = CHR ''/'') (rev s))"

text \<open>\<open>atoshipSDK.__init__\<close>, and the constructor called with the API key only.\<close>

definition atoshipSDK_init :: "pyval \<Rightarrow> string \<Rightarrow> real \<Rightarrow> int \<Rightarrow> bool \<Rightarrow> exn + sdk" where
  "atoshipSDK_init key url tmo retries dbg =
     (case key of
        PStr k \<Rightarrow>
          if k = [] then
            Inl (SDKError (atoshipError_init ConfigurationError
                   (PStr ''API key is required and must be a string'') PNone PNone))
          else Inr \<lparr>api_key = k, base_url = rstrip_slash url, timeout = tmo,
                    max_retries = retries, debug = dbg, sent = [], slept = []\<rparr>
      | _ \<Rightarrow>
          Inl (SDKError (atoshipError_init ConfigurationError
                 (PStr ''API key is required and must be a string'') PNone PNone)))"

definition atoshipSDK_default :: "pyval \<Rightarrow> exn + sdk" where
  "atoshipSDK_default key = atoshipSDK_init key ''https://api.atoship.com'' 30 3 False"

text \<open>
  \<open>_handle_response\<close>: a body that is not JSON becomes \<open>{'error': 'Invalid JSON response'}\<close>;
  a 2xx response returns the body; otherwise the mapped error is raised. A JSON body that
  is not an object has no \<open>get\<close> (AttributeError inside \<open>create_error_from_response\<close>).
\<close>

definition handle_response :: "int \<Rightarrow> pyval option \<Rightarrow> exn + pyval" where
  "handle_response status_code body =
     (let response_data =
            (case body of None \<Rightarrow> PDict [(''error'', PStr ''Invalid JSON response'')]
                        | Some v \<Rightarrow> v)
      in if 200 \<le> status_code \<and> status_code \<le> 299 then Inr response_data
         else (case response_data of
                 PDict d \<Rightarrow>
                   (case create_error_from_response status_code d of
                      Inl e \<Rightarrow> Inl e
                    | Inr error \<Rightarrow> Inl (SDKError error))
               | _ \<Rightarrow> Inl PyAttributeError))"

text \<open>
  The inner \<open>make_request()\<close> of \<open>_make_request\<close>: one attempt, given what the HTTP client
  did. The \<open>except\<close> clauses are tried in order: \<open>httpx.TimeoutException\<close>,
  \<open>httpx.NetworkError\<close>, \<open>httpx.HTTPError\<close>.
\<close>

definition make_request :: "httpx_result \<Rightarrow> exn + pyval" where
  "make_request r =
     (case r of
        Response status_code body \<Rightarrow> handle_response status_code body
      | TimeoutException txt \<Rightarrow>
          Inl (SDKError (atoshipError_init TimeoutError (PStr ''Request timed out'') PNone PNone))
      | HttpxNetworkError txt \<Rightarrow>
          Inl (SDKError (atoshipError_init NetworkError (PStr (''Network error: '' @ txt)) PNone PNone))
      | HTTPError txt \<Rightarrow>
          Inl (SDKError (atoshipError_init NetworkError (PStr (''HTTP error: '' @ txt)) PNone PNone)))"

text \<open>
  \<open>_make_request(method, endpoint, data)\<close>. Building the URL and the JSON text is string
  formatting and is left out; \<open>json_data\<close> is sent only \<open>if data\<close>. The decorator
  \<open>@retry_with_backoff\<close> is applied without arguments, so the wrapper runs with the
  decorator's defaults \<open>max_retries = 3\<close> and \<open>base_delay = 1.0\<close>. The transport
  \<open>net k req\<close> tells what the \<open>k\<close>-th request ever sent by this client (from 0) meets.
\<close>

definition do_make_request ::
  "sdk \<Rightarrow> (nat \<Rightarrow> request \<Rightarrow> httpx_result) \<Rightarrow> string \<Rightarrow> string \<Rightarrow> pyval option \<Rightarrow> (exn + pyval) \<times> sdk" where
  "do_make_request self net method endpoint data =
     (let req = \<lparr>req_method = method, req_endpoint = endpoint,
                 req_data = (case data of None \<Rightarrow> None
                                        | Some v \<Rightarrow> if truthy v then Some v else None)\<rparr>;
          r = retry_with_backoff (\<lambda>i. make_request (net (length (sent self) + i) req)) 3 1
      in (outcome r,
          self\<lparr>sent := sent self @ replicate (calls r) req, slept := slept self @ sleeps r\<rparr>))"

text \<open>\<open>format_tracking_number\<close>\<close>

definition format_tracking_number :: "string \<Rightarrow> string" where
  "format_tracking_number tracking_number = upper (strip tracking_number)"

text \<open>
  The loop of \<open>create_orders_batch\<close> over \<open>enumerate(orders)\<close>: the first order with
  validation errors raises. \<open>Inr ()\<close>: every order passed.
\<close>

fun validate_each :: "pydict list \<Rightarrow> nat \<Rightarrow> exn + unit" where
  "validate_each [] i = Inr ()"
| "validate_each (order_data # orders) i =
     bind_exn (validate_order_data order_data) (\<lambda>validation_errors.
       if validation_errors \<noteq> []
       then Inl (SDKError (atoshipError_init ValidationError
              (PStr (''Order '' @ str_nat (i + 1) @ '' validation failed: ''
                     @ join ''; '' validation_errors)) PNone PNone))
       else validate_each orders (i + 1))"

text \<open>
  \<open>create_orders_batch\<close> and \<open>track_multiple\<close>. The result is the response data that the
  method wraps into an \<open>APIResponse\<close>.
\<close>

definition create_orders_batch ::
  "sdk \<Rightarrow> (nat \<Rightarrow> request \<Rightarrow> httpx_result) \<Rightarrow> pydict list \<Rightarrow> (exn + pyval) \<times> sdk" where
  "create_orders_batch self net orders =
     (if orders = [] \<or> length orders = 0 then
        (Inl (SDKError (atoshipError_init ValidationError
                (PStr ''At least one order is required for batch creation'') PNone PNone)), self)
      else if length orders > 100 then
        (Inl (SDKError (atoshipError_init ValidationError
                (PStr ''Maximum 100 orders allowed per batch'') PNone PNone)), self)
      else
        (case validate_each orders 0 of
           Inl e \<Rightarrow> (Inl e, self)
         | Inr u \<Rightarrow>
             do_make_request self net ''POST'' ''/api/orders/batch''
               (Some (PDict [(''orders'', PList (map PDict orders))]))))"

definition track_multiple ::
  "sdk \<Rightarrow> (nat \<Rightarrow> request \<Rightarrow> httpx_result) \<Rightarrow> string list \<Rightarrow> (exn + pyval) \<times> sdk" where
  "track_multiple self net tracking_numbers =
     (if length tracking_numbers > 50 then
        (Inl (SDKError (atoshipError_init ValidationError
                (PStr ''Maximum 50 tracking numbers allowed per request'') PNone PNone)), self)
      else
        do_make_request self net ''POST'' ''/api/tracking/batch''
          (Some (PDict [(''trackingNumbers'',
                         PList (map (\<lambda>tn. PStr (format_tracking_number tn)) tracking_numbers))])))"

text \<open>\<open>get_profile\<close>, a method that only forwards to \<open>_make_request\<close>.\<close>

definition get_profile :: "sdk \<Rightarrow> (nat \<Rightarrow> request \<Rightarrow> httpx_result) \<Rightarrow> (exn + pyval) \<times> sdk" where
  "get_profile self net = do_make_request self net ''GET'' ''/api/profile'' None"

section \<open>Models (models.py)\<close>









section \<open>The properties, as the specification words them\<close>


definition in_taxonomy :: "int \<Rightarrow> bool" where
  "in_taxonomy status =
     (status = 401 \<or> status = 403 \<or> status = 404 \<or> status = 429
      \<or> (500 \<le> status \<and> status \<le> 599))"





text \<open>
  Masking as the specification describes it: the sensitive keys, compared without regard
  to case; a string longer than 4 keeps its length, its first two and its last two
  characters, with asterisks in between; anything else becomes \<open>"***"\<close>.
\<close>

definition sensitive_key :: "string \<Rightarrow> bool" where
  "sensitive_key key =
     (lower key \<in> {''password'', ''apikey'', ''api_key'', ''secret'', ''token'', ''key''})"

definition middle_masked :: "string \<Rightarrow> string \<Rightarrow> bool" where
  "middle_masked s t =
     (length t = length s \<and> take 2 t = take 2 s
      \<and> take (length s - 4) (drop 2 t) = replicate (length s - 4) (CHR ''*'')
      \<and> drop (length s - 2) t = drop (length s - 2) s)"

definition masked_as_specified :: "pyval \<Rightarrow> pyval \<Rightarrow> bool" where
  "masked_as_specified v w =
     (case v of
        PStr s \<Rightarrow> if length s > 4 then (case w of PStr t \<Rightarrow> middle_masked s t | _ \<Rightarrow> False)
                  else w = PStr ''***''
      | _ \<Rightarrow> w = PStr ''***'')"



definition present :: "pydict \<Rightarrow> string \<Rightarrow> bool" where
  "present d f = (case map_of d f of Some v \<Rightarrow> v \<noteq> PNone | None \<Rightarrow> False)"











section \<open>Error mapping\<close>





text \<open>
  C7 as stated fails: status 400 is outside 401, 403, 404, 429 and 500-599, and the
  mapping answers it with a ValidationError, not with the base error.
\<close>

theorem status_400_is_validation_error_counterexample:
  "create_error_from_response 400 [(''error'', PStr ''Bad request'')]
     = Inr \<lparr>err_class = ValidationError, message = PStr ''Bad request'', code = PNone,
            details = PDict [], retry_after = None\<rparr>"
  by (simp add: create_error_from_response_def atoshipError_init_def dict_get_def Let_def)

text \<open>
  C7 (as amended). The error mapping produces a ValidationError for HTTP status 400 and
  for no other status; every status other than 400, 401, 403, 404, 429 and 500-599 maps
  to the base error \<open>atoshipError\<close>.
\<close>

theorem uncovered_status_maps_to_base_error:
  "(\<not> in_taxonomy status \<and> status \<noteq> 400 \<longrightarrow>
      (\<exists>e. create_error_from_response status body = Inr e \<and> err_class e = atoshipError))
   \<and> ((\<exists>e. create_error_from_response status body = Inr e \<and> err_class e = ValidationError)
        \<longleftrightarrow> status = 400)"
proof -
  have a: "\<not> in_taxonomy status \<and> status \<noteq> 400 \<longrightarrow>
      (\<exists>e. create_error_from_response status body = Inr e \<and> err_class e = atoshipError)"
    by (auto simp: in_taxonomy_def create_error_from_response_def atoshipError_init_def Let_def)
  have b: "status = 400 \<Longrightarrow>
      \<exists>e. create_error_from_response status body = Inr e \<and> err_class e = ValidationError"
    by (simp add: create_error_from_response_def atoshipError_init_def Let_def)
  have c: "create_error_from_response status body = Inr e \<Longrightarrow> err_class e = ValidationError
      \<Longrightarrow> status = 400" for e
    by (auto simp: create_error_from_response_def atoshipError_init_def RateLimitError_init_def
        Let_def split: if_splits pyval.splits)
  from a b c show ?thesis by blast
qed

theorem uncovered_status_maps_to_base_error_witness:
  "(\<exists>e. create_error_from_response 418 [] = Inr e \<and> err_class e = atoshipError)
   \<and> (\<exists>e. create_error_from_response 400 [] = Inr e \<and> err_class e = ValidationError)"
  using uncovered_status_maps_to_base_error [of 418 "[]"]
        uncovered_status_maps_to_base_error [of 400 "[]"]
  by (simp add: in_taxonomy_def)

section \<open>Retry\<close>

lemma attempt_range_3: "attempt_range 3 = [0, 1, 2, 3]"
  by code_simp



lemma retry_loop_calls_le:
  "calls (retry_loop func m bd as lst n sl) \<le> n + length as"
proof (induction as arbitrary: lst n sl)
  case Nil
  show ?case by simp
next
  case (Cons a as)
  have "calls (retry_loop func m bd as l (Suc n) s) \<le> Suc (n + length as)" for l s
    using Cons.IH [of l "Suc n" s] by simp
  then show ?case by (auto split: sum.splits)
qed

lemma retry_with_backoff_calls_le:
  "calls (retry_with_backoff func m bd) \<le> nat (m + 1)"
  using retry_loop_calls_le [of func m bd "attempt_range m" None 0 "[]"]
  by (simp add: retry_with_backoff_def attempt_range_def)

lemma retry_loop_sleeps:
  "\<exists>j \<le> length as. sleeps (retry_loop func m bd as lst n sl) = sl @ map (\<lambda>a. bd * 2 ^ a) (take j as)"
proof (induction as arbitrary: lst n sl)
  case Nil
  then show ?case by simp
next
  case (Cons a as)
  show ?case
  proof (cases "func n")
    case (Inr v)
    then show ?thesis by (intro exI[of _ 0]) simp
  next
    case (Inl e)
    show ?thesis
    proof (cases "int a = m \<or> \<not> is_retriable_error e \<or> bd * 2 ^ a < 0")
      case True
      with Inl show ?thesis by (intro exI[of _ 0]) auto
    next
      case False
      from Cons.IH [of "Some e" "n + 1" "sl @ [bd * 2 ^ a]"]
      obtain j where "j \<le> length as"
        and "sleeps (retry_loop func m bd as (Some e) (n + 1) (sl @ [bd * 2 ^ a]))
             = (sl @ [bd * 2 ^ a]) @ map (\<lambda>a. bd * 2 ^ a) (take j as)"
        by blast
      with Inl False show ?thesis by (intro exI[of _ "Suc j"]) auto
    qed
  qed
qed

lemma retry_with_backoff_sleeps:
  "\<exists>j \<le> nat (m + 1). sleeps (retry_with_backoff func m bd) = map (\<lambda>a. bd * 2 ^ a) [0 ..< j]"
proof -
  from retry_loop_sleeps [of "attempt_range m" func m bd None 0 "[]"]
  obtain j where j: "j \<le> length (attempt_range m)"
    and s: "sleeps (retry_with_backoff func m bd) = map (\<lambda>a. bd * 2 ^ a) (take j (attempt_range m))"
    by (auto simp: retry_with_backoff_def)
  from j have "take j (attempt_range m) = [0 ..< j]"
    by (simp add: attempt_range_def take_upt)
  with j s show ?thesis by (intro exI[of _ j]) (simp add: attempt_range_def)
qed






section \<open>The transport layer\<close>

lemma do_make_request_503:
  "do_make_request self (\<lambda>k req. Response 503 None) method endpoint data =
     (Inl (SDKError \<lparr>err_class = ServerError, message = PStr ''Invalid JSON response'',
             code = PNone, details = PDict [], retry_after = None\<rparr>),
      self\<lparr>sent := sent self @ replicate 4 \<lparr>req_method = method, req_endpoint = endpoint,
               req_data = (case data of None \<Rightarrow> None | Some v \<Rightarrow> if truthy v then Some v else None)\<rparr>,
            slept := slept self @ [1, 2, 4]\<rparr>)"
  by (simp add: do_make_request_def retry_with_backoff_def attempt_range_3 make_request_def
      handle_response_def create_error_from_response_def atoshipError_init_def dict_get_def
      is_retriable_error_def Let_def numeral_eq_Suc)

lemma do_make_request_ignores_max_retries:
  "do_make_request (self\<lparr>max_retries := m\<rparr>) net method endpoint data =
     (fst (do_make_request self net method endpoint data),
      (snd (do_make_request self net method endpoint data))\<lparr>max_retries := m\<rparr>)"
  by (simp add: do_make_request_def Let_def)

text \<open>
  C2 (the code departs from it). A client constructed with \<open>max_retries = 0\<close> whose every
  request is answered with 503 still sends four requests (three retries, after delays of
  1, 2 and 4 seconds) before the ServerError reaches the caller: \<open>_make_request\<close> runs the
  retry wrapper with the decorator's default of 3 and never reads \<open>self._max_retries\<close>.
\<close>

theorem configured_max_retries_not_used:
  "atoshipSDK_init (PStr ''k'') ''https://api.atoship.com'' 30 0 False
     = Inr \<lparr>api_key = ''k'', base_url = ''https://api.atoship.com'', timeout = 30,
            max_retries = 0, debug = False, sent = [], slept = []\<rparr>
   \<and> get_profile \<lparr>api_key = ''k'', base_url = ''https://api.atoship.com'', timeout = 30,
                max_retries = 0, debug = False, sent = [], slept = []\<rparr>
               (\<lambda>k req. Response 503 None)
   = (Inl (SDKError \<lparr>err_class = ServerError, message = PStr ''Invalid JSON response'',
             code = PNone, details = PDict [], retry_after = None\<rparr>),
      \<lparr>api_key = ''k'', base_url = ''https://api.atoship.com'', timeout = 30,
       max_retries = 0, debug = False,
       sent = [\<lparr>req_method = ''GET'', req_endpoint = ''/api/profile'', req_data = None\<rparr>,
               \<lparr>req_method = ''GET'', req_endpoint = ''/api/profile'', req_data = None\<rparr>,
               \<lparr>req_method = ''GET'', req_endpoint = ''/api/profile'', req_data = None\<rparr>,
               \<lparr>req_method = ''GET'', req_endpoint = ''/api/profile'', req_data = None\<rparr>],
       slept = [1, 2, 4]\<rparr>)"
  by (simp add: get_profile_def do_make_request_503 numeral_eq_Suc atoshipSDK_init_def
      rstrip_slash_def)

lemma do_make_request_timeout:
  "fst (do_make_request self (\<lambda>k req. TimeoutException txt) method endpoint data) =
     Inl (SDKError \<lparr>err_class = TimeoutError, message = PStr ''Request timed out'',
             code = PNone, details = PDict [], retry_after = None\<rparr>)"
  by (simp add: do_make_request_def retry_with_backoff_def attempt_range_3 make_request_def
      atoshipError_init_def is_retriable_error_def Let_def)

text \<open>
  C4 (the code departs from it). When every attempt times out, the caller of
  \<open>get_profile\<close> receives the SDK's TimeoutError, which is not a NetworkError.
\<close>

theorem timeout_raised_as_TimeoutError:
  "fst (get_profile self (\<lambda>k req. TimeoutException ''timed out'')) =
     Inl (SDKError \<lparr>err_class = TimeoutError, message = PStr ''Request timed out'',
             code = PNone, details = PDict [], retry_after = None\<rparr>)
   \<and> \<not> isinstance (SDKError \<lparr>err_class = TimeoutError, message = PStr ''Request timed out'',
             code = PNone, details = PDict [], retry_after = None\<rparr>) NetworkError"
  by (simp add: get_profile_def do_make_request_timeout)

text \<open>
  C6. \<open>create_orders_batch\<close> given no orders or more than 100 orders, and
  \<open>track_multiple\<close> given more than 50 tracking numbers, raise a ValidationError and
  leave the client as it was: nothing is added to the requests sent, whatever the
  transport would have answered.
\<close>

theorem batch_limits_raise_before_any_request:
  "(orders = [] \<or> length orders > 100 \<longrightarrow>
      (\<exists>msg. create_orders_batch self net orders
              = (Inl (SDKError (atoshipError_init ValidationError (PStr msg) PNone PNone)), self)))
   \<and> (length tracking_numbers > 50 \<longrightarrow>
      (\<exists>msg. track_multiple self net tracking_numbers
              = (Inl (SDKError (atoshipError_init ValidationError (PStr msg) PNone PNone)), self)))"
  by (auto simp: create_orders_batch_def track_multiple_def)

theorem batch_limits_raise_before_any_request_witness:
  "(\<exists>msg. create_orders_batch
            \<lparr>api_key = ''k'', base_url = ''https://api.atoship.com'', timeout = 30,
             max_retries = 3, debug = False, sent = [], slept = []\<rparr>
            (\<lambda>k req. Response 200 None) []
          = (Inl (SDKError (atoshipError_init ValidationError (PStr msg) PNone PNone)),
             \<lparr>api_key = ''k'', base_url = ''https://api.atoship.com'', timeout = 30,
              max_retries = 3, debug = False, sent = [], slept = []\<rparr>))
   \<and> (\<exists>msg. create_orders_batch
            \<lparr>api_key = ''k'', base_url = ''https://api.atoship.com'', timeout = 30,
             max_retries = 3, debug = False, sent = [], slept = []\<rparr>
            (\<lambda>k req. Response 200 None) (replicate 101 [(''orderNumber'', PStr ''A'')])
          = (Inl (SDKError (atoshipError_init ValidationError (PStr msg) PNone PNone)),
             \<lparr>api_key = ''k'', base_url = ''https://api.atoship.com'', timeout = 30,
              max_retries = 3, debug = False, sent = [], slept = []\<rparr>))
   \<and> (\<exists>msg. track_multiple
            \<lparr>api_key = ''k'', base_url = ''https://api.atoship.com'', timeout = 30,
             max_retries = 3, debug = False, sent = [], slept = []\<rparr>
            (\<lambda>k req. Response 200 None) (replicate 51 ''1Z999AA1234567890'')
          = (Inl (SDKError (atoshipError_init ValidationError (PStr msg) PNone PNone)),
             \<lparr>api_key = ''k'', base_url = ''https://api.atoship.com'', timeout = 30,
              max_retries = 3, debug = False, sent = [], slept = []\<rparr>))"
  using batch_limits_raise_before_any_request
          [of "[]" "\<lparr>api_key = ''k'', base_url = ''https://api.atoship.com'', timeout = 30,
                     max_retries = 3, debug = False, sent = [], slept = []\<rparr>"
              "\<lambda>k req. Response 200 None" "replicate 51 ''1Z999AA1234567890''"]
        batch_limits_raise_before_any_request
          [of "replicate 101 [(''orderNumber'', PStr ''A'')]"
              "\<lparr>api_key = ''k'', base_url = ''https://api.atoship.com'', timeout = 30,
                max_retries = 3, debug = False, sent = [], slept = []\<rparr>"
              "\<lambda>k req. Response 200 None" "[]"]
  by simp

section \<open>Masking\<close>

lemma lower_default_sensitive_fields:
  "map lower default_sensitive_fields
     = [''password'', ''apikey'', ''api_key'', ''secret'', ''token'', ''key'']"
  by code_simp

lemma mask_fields_keys: "map fst (mask_fields data sf) = map fst data"
  by (induction data sf rule: mask_fields.induct) simp_all

lemma mask_fields_lookup:
  "map_of data key = Some v \<Longrightarrow>
   map_of (mask_fields data sf) key =
     Some (if lower key \<in> set (map lower sf) then
             (case v of
                PStr s \<Rightarrow>
                  if length s > 4
                  then PStr (take 2 s @ replicate (length s - 4) (CHR ''*'') @ drop (length s - 2) s)
                  else PStr ''***''
              | _ \<Rightarrow> PStr ''***'')
           else (case v of PDict d \<Rightarrow> PDict (mask_fields d sf) | _ \<Rightarrow> v))"
proof (induction data)
  case Nil
  then show ?case by simp
next
  case (Cons kv data)
  obtain k w where kv: "kv = (k, w)" by (cases kv)
  show ?case
  proof (cases "k = key")
    case True
    with Cons.prems kv show ?thesis by simp
  next
    case False
    with Cons kv show ?thesis by simp
  qed
qed

lemma mask_fields_lookup_None:
  "map_of data key = None \<Longrightarrow> map_of (mask_fields data sf) key = None"
  using mask_fields_keys [of data sf] by (metis map_of_eq_None_iff set_map)

lemma middle_masked_code:
  "length s > 4 \<Longrightarrow>
   middle_masked s (take 2 s @ replicate (length s - 4) (CHR ''*'') @ drop (length s - 2) s)"
  by (simp add: middle_masked_def min_def)

text \<open>
  C9. \<open>mask_sensitive_data\<close> with the default field list keeps the keys and their order;
  under a sensitive key (password, apiKey, api_key, secret, token, key, in any case) a
  string longer than 4 characters becomes its first two characters, asterisks for the
  middle, and its last two characters, and every other value becomes \<open>"***"\<close>; under
  any other key a dictionary is masked recursively and every other value is unchanged.
\<close>

theorem mask_sensitive_data_masks:
  "map fst (mask_sensitive_data data None) = map fst data
   \<and> (map_of data key = None \<longrightarrow> map_of (mask_sensitive_data data None) key = None)
   \<and> (map_of data key = Some v \<and> sensitive_key key \<longrightarrow>
        (\<exists>w. map_of (mask_sensitive_data data None) key = Some w \<and> masked_as_specified v w))
   \<and> (map_of data key = Some v \<and> \<not> sensitive_key key \<longrightarrow>
        map_of (mask_sensitive_data data None) key =
          Some (case v of PDict d \<Rightarrow> PDict (mask_sensitive_data d None) | _ \<Rightarrow> v))"
proof -
  have sens: "lower key \<in> set (map lower default_sensitive_fields) \<longleftrightarrow> sensitive_key key"
    by (simp add: lower_default_sensitive_fields sensitive_key_def)
  have a: "map fst (mask_sensitive_data data None) = map fst data"
    by (simp add: mask_sensitive_data_def mask_fields_keys)
  have b: "map_of data key = None \<longrightarrow> map_of (mask_sensitive_data data None) key = None"
    by (simp add: mask_sensitive_data_def mask_fields_lookup_None)
  have c: "map_of data key = Some v \<and> sensitive_key key \<longrightarrow>
        (\<exists>w. map_of (mask_sensitive_data data None) key = Some w \<and> masked_as_specified v w)"
    using sens
    by (auto simp: mask_sensitive_data_def mask_fields_lookup masked_as_specified_def
        middle_masked_code split: pyval.splits)
  have d: "map_of data key = Some v \<and> \<not> sensitive_key key \<longrightarrow>
        map_of (mask_sensitive_data data None) key =
          Some (case v of PDict d \<Rightarrow> PDict (mask_sensitive_data d None) | _ \<Rightarrow> v)"
    using sens
    by (auto simp: mask_sensitive_data_def mask_fields_lookup split: pyval.splits)
  from a b c d show ?thesis by blast
qed

lemma sensitive_password: "sensitive_key ''password''"
  by code_simp

lemma not_sensitive_nested: "\<not> sensitive_key ''nested''"
  by code_simp

theorem mask_sensitive_data_masks_witness:
  "(\<exists>w. map_of (mask_sensitive_data [(''password'', PStr ''secret123'')] None) ''password'' = Some w
        \<and> masked_as_specified (PStr ''secret123'') w)
   \<and> mask_sensitive_data [(''password'', PStr ''secret123'')] None
        = [(''password'', PStr ''se*****23'')]
   \<and> map_of (mask_sensitive_data [(''nested'', PDict [(''Key'', PStr ''abcd'')])] None) ''nested''
        = Some (PDict (mask_sensitive_data [(''Key'', PStr ''abcd'')] None))
   \<and> mask_sensitive_data [(''Key'', PStr ''abcd'')] None = [(''Key'', PStr ''***'')]
   \<and> map_of (mask_sensitive_data [(''password'', PStr ''secret123'')] None) ''user'' = None"
proof -
  have a: "mask_sensitive_data [(''password'', PStr ''secret123'')] None
        = [(''password'', PStr ''se*****23'')]"
    by code_simp
  have b: "mask_sensitive_data [(''Key'', PStr ''abcd'')] None = [(''Key'', PStr ''***'')]"
    by code_simp
  from mask_sensitive_data_masks
         [of "[(''password'', PStr ''secret123'')]" "''password''" "PStr ''secret123''"]
       mask_sensitive_data_masks
         [of "[(''nested'', PDict [(''Key'', PStr ''abcd'')])]" "''nested''"
             "PDict [(''Key'', PStr ''abcd'')]"]
       mask_sensitive_data_masks
         [of "[(''password'', PStr ''secret123'')]" "''user''" "PNone"]
       sensitive_password not_sensitive_nested a b
  show ?thesis by simp
qed

section \<open>Order validation\<close>

























text \<open>
  C10 (the code departs from it). The valid order with its postal code given as the
  integer 94105 makes \<open>validate_order_data\<close> raise AttributeError (\<open>postal_code.strip()\<close>);
  an integer email or phone raises TypeError (\<open>re.match\<close>, \<open>re.sub\<close>); a postal code
  that is \<open>None\<close> raises AttributeError, the postal check having no guard for an empty
  value.
\<close>

theorem validate_order_data_raises_on_non_string:
  "validate_order_data
     [(''orderNumber'', PStr ''ORDER-001''), (''recipientName'', PStr ''John Doe''),
      (''recipientStreet1'', PStr ''123 Main St''), (''recipientCity'', PStr ''San Francisco''),
      (''recipientState'', PStr ''CA''), (''recipientPostalCode'', PInt 94105),
      (''recipientCountry'', PStr ''US''),
      (''items'', PList [PDict [(''name'', PStr ''Product 1''), (''sku'', PStr ''SKU-1''),
         (''quantity'', PInt 1), (''unitPrice'', PFloat (Finite 10)),
         (''weight'', PFloat (Finite 1)), (''weightUnit'', PStr ''lb'')]])]
     = Inl PyAttributeError
   \<and> validate_order_data [(''recipientEmail'', PInt 12345)] = Inl PyTypeError
   \<and> validate_order_data [(''recipientPhone'', PInt 4155550123)] = Inl PyTypeError
   \<and> validate_order_data [(''recipientPostalCode'', PNone), (''recipientCountry'', PStr ''US'')]
       = Inl PyAttributeError"
  by code_simp

section \<open>The Address round trip\<close>





lemma map_of_keyed_None:
  "key \<notin> set (map k xs) \<Longrightarrow> map_of (map (\<lambda>x. (k x, g x)) xs) key = None"
  by (induction xs) auto











end
